theory Spec2Isabelle
  imports Main
begin

section \<open>Errors\<close>

text \<open>
  Every exception the modelled code can raise is a value. A function that may raise returns
  \<open>error + 'a\<close>, with \<open>Inl\<close> for the exception.
\<close>

datatype error =
    AssertionError
  | ZeroDivisionError
  | ValueError
  | RuntimeError
  | TypeError
  | IndexError
  | AttributeError
  | NotImplementedError

section \<open>Tensors\<close>

text \<open>
  Python's \<open>xs[a:b]\<close> for non-negative bounds: the elements at positions \<open>a\<close> up to
  \<open>b\<close> (exclusive), cut at the end of the sequence, empty when \<open>b \<le> a\<close>.
\<close>

definition py_slice :: "nat \<Rightarrow> nat \<Rightarrow> 'a list \<Rightarrow> 'a list" where
  "py_slice a b xs = take (b - a) (drop a xs)"

text \<open>
  A two-dimensional tensor is its list of rows together with the size of its second axis
  (which a list of rows alone does not give when there are no rows). A one-dimensional
  tensor (a bias) is a list. The element type is left open: no arithmetic is done on
  elements by the loader.
\<close>

datatype 'a tensor2 = Tensor2 (ncols: nat) (rws: "'a list list")

definition nrows :: "'a tensor2 \<Rightarrow> nat" where
  "nrows t = length (rws t)"

text \<open>\<open>t[a:b]\<close>: slicing along the first axis.\<close>

definition row_slice :: "nat \<Rightarrow> nat \<Rightarrow> 'a tensor2 \<Rightarrow> 'a tensor2" where
  "row_slice a b t = Tensor2 (ncols t) (py_slice a b (rws t))"

text \<open>\<open>t[:, a:b]\<close>: slicing along the second axis.\<close>

definition col_slice :: "nat \<Rightarrow> nat \<Rightarrow> 'a tensor2 \<Rightarrow> 'a tensor2" where
  "col_slice a b t = Tensor2 (min (b - a) (ncols t - a)) (map (py_slice a b) (rws t))"

text \<open>
  \<open>torch.cat(ts, dim=0)\<close> on two-dimensional tensors stacks the rows. All tensors must
  agree on the size of the second axis, otherwise torch raises a RuntimeError
  (sizes of tensors must match except in dimension 0); so does an empty list.
\<close>

fun torch_cat0 :: "'a tensor2 list \<Rightarrow> error + 'a tensor2" where
  "torch_cat0 [] = Inl RuntimeError"
| "torch_cat0 (t # ts) =
     (if list_all (\<lambda>u. ncols u = ncols t) ts
      then Inr (Tensor2 (ncols t) (concat (map rws (t # ts))))
      else Inl RuntimeError)"

text \<open>\<open>t.T\<close>: the transposed tensor.\<close>

definition tensor_T :: "'a tensor2 \<Rightarrow> 'a tensor2" where
  "tensor_T t = Tensor2 (nrows t) (map (\<lambda>j. map (\<lambda>r. r ! j) (rws t)) [0..<ncols t])"

text \<open>\<open>t.to(dtype=...)\<close>: an elementwise conversion.\<close>

definition tensor_to :: "('a \<Rightarrow> 'a) \<Rightarrow> 'a tensor2 \<Rightarrow> 'a tensor2" where
  "tensor_to f t = Tensor2 (ncols t) (map (map f) (rws t))"

section \<open>Configuration\<close>

text \<open>
  \<open>ShellConfig.__init__\<close>. The fields that hold integers, booleans and strings are kept;
  the floating-point fields (\<open>initializer_range\<close>, \<open>rms_norm_eps\<close>, \<open>rope_theta\<close>,
  \<open>rope_scaling\<close>) and the token ids handed to the superclass play no part in what
  follows. Head counts and sizes are natural numbers.
\<close>

record shell_config =
  vocab_size :: nat
  max_position_embeddings :: nat
  hidden_size :: nat
  intermediate_size :: nat
  num_hidden_layers :: nat
  num_attention_heads :: nat
  num_key_value_heads :: nat
  hidden_act :: string
  pretraining_tp :: nat
  use_cache :: bool

text \<open>
  The arguments of the constructor in the order of the source; \<open>num_key_value_heads\<close>
  is optional (\<open>None\<close> by default).
\<close>

definition ShellConfig_init ::
  "nat \<Rightarrow> nat \<Rightarrow> nat \<Rightarrow> nat \<Rightarrow> nat \<Rightarrow> nat option \<Rightarrow> string \<Rightarrow> nat \<Rightarrow> bool \<Rightarrow> nat \<Rightarrow> shell_config" where
  "ShellConfig_init vocab_size' hidden_size' intermediate_size' num_hidden_layers'
      num_attention_heads' num_key_value_heads' hidden_act' max_position_embeddings'
      use_cache' pretraining_tp' =
     (let num_key_value_heads'' =
        (case num_key_value_heads' of
           None \<Rightarrow> num_attention_heads'
         | Some k \<Rightarrow> k)
      in \<lparr> vocab_size = vocab_size',
           max_position_embeddings = max_position_embeddings',
           hidden_size = hidden_size',
           intermediate_size = intermediate_size',
           num_hidden_layers = num_hidden_layers',
           num_attention_heads = num_attention_heads',
           num_key_value_heads = num_key_value_heads'',
           hidden_act = hidden_act',
           pretraining_tp = pretraining_tp',
           use_cache = use_cache' \<rparr>)"

text \<open>The constructor called with its default arguments.\<close>

definition ShellConfig_default :: shell_config where
  "ShellConfig_default =
     ShellConfig_init 70144 4096 16384 42 32 None ''gelu_pytorch_tanh'' 8192 True 1"

text \<open>
  The attributes a checkpoint's \<open>config.json\<close> adds to the configuration object
  (\<open>from_pretrained\<close> stores unknown keys as attributes). A missing attribute is \<open>None\<close>;
  reading it raises AttributeError.
\<close>

record checkpoint_attrs =
  num_query_groups :: "nat option"
  activation_function :: "string option"
  n_embd :: "nat option"
  architectures :: "string list option"

text \<open>
  The configuration as the model classes see it: \<open>FlashShell.__init__\<close> adds the runtime
  flags \<open>quantize\<close> and \<open>transpose\<close>.
\<close>

record config = shell_config +
  quantize :: "string option"
  transpose :: bool
  use_medusa :: "string option"

text \<open>\<open>s.startswith(p)\<close>\<close>

definition startswith :: "string \<Rightarrow> string \<Rightarrow> bool" where
  "startswith s p = (take (length p) s = p)"

text \<open>
  \<open>FlashShell.__init__\<close>, lines 32 to 59: the device check and the configuration it
  builds from the loaded \<open>ShellConfig\<close>.
\<close>

definition FlashShell_config ::
  "bool \<Rightarrow> shell_config \<Rightarrow> checkpoint_attrs \<Rightarrow> string option \<Rightarrow> string option \<Rightarrow> error + config" where
  "FlashShell_config cuda_is_available cfg attrs quantize' use_medusa' =
     (if \<not> cuda_is_available then Inl NotImplementedError
      else case num_query_groups attrs of
        None \<Rightarrow> Inl AttributeError
      | Some g \<Rightarrow>
          (case activation_function attrs of
             None \<Rightarrow> Inl AttributeError
           | Some act \<Rightarrow>
               (case n_embd attrs of
                  None \<Rightarrow> Inl AttributeError
                | Some e \<Rightarrow>
                    (case architectures attrs of
                       None \<Rightarrow> Inl TypeError
                     | Some [] \<Rightarrow> Inl IndexError
                     | Some (a # _) \<Rightarrow>
                         Inr (shell_config.extend
                               (cfg\<lparr> num_key_value_heads := g,
                                     hidden_act := act,
                                     intermediate_size := e \<rparr>)
                               (config.fields quantize' (startswith a ''GPT2'') use_medusa'))))))"

section \<open>The weight source and the linear layers\<close>

text \<open>
  The weight source of one shard process. The process group gives the shard count and
  this shard's rank. The methods of the \<open>Weights\<close> class are parameters: \<open>_get_slice\<close>
  (split by the rank of the tensor it returns: the fused weight is two-dimensional, its bias
  one-dimensional), \<open>get_tensor\<close>, \<open>get_sharded\<close>, \<open>get_multi_weights_row\<close>, and the
  conversion to the weights' dtype.
\<close>

record 'a weights =
  process_group_size :: nat
  process_group_rank :: nat
  get_slice2 :: "string \<Rightarrow> error + 'a tensor2"
  get_slice1 :: "string \<Rightarrow> error + 'a list"
  get_tensor :: "string \<Rightarrow> error + 'a list"
  get_sharded :: "string \<Rightarrow> nat \<Rightarrow> error + 'a tensor2"
  get_multi_weights_row :: "string \<Rightarrow> string option \<Rightarrow> error + 'a tensor2"
  to_dtype :: "'a \<Rightarrow> 'a"

text \<open>
  \<open>get_linear(weight, bias, quantize)\<close> builds a linear layer from its three arguments;
  the layer is the data it holds.
\<close>

record 'a linear =
  weight :: "'a tensor2"
  bias :: "'a list option"
  linear_quantize :: "string option"

definition get_linear :: "'a tensor2 \<Rightarrow> 'a list option \<Rightarrow> string option \<Rightarrow> 'a linear" where
  "get_linear w b q = \<lparr> weight = w, bias = b, linear_quantize = q \<rparr>"

datatype 'a layer =
    TensorParallelColumnLinear (linear_of: "'a linear")
  | TensorParallelRowLinear (linear_of: "'a linear")

section \<open>The weight-sharding loader\<close>

text \<open>
  \<open>_load_attention\<close>. The two assertions are branches that return AssertionError; a
  shard count of zero makes \<open>%\<close> raise ZeroDivisionError. The boolean argument \<open>bias\<close> is
  named \<open>with_bias\<close>.
\<close>

definition load_attention' ::
  "config \<Rightarrow> string \<Rightarrow> 'a weights \<Rightarrow> bool \<Rightarrow> nat \<Rightarrow> nat \<Rightarrow> error + 'a layer" where
  "load_attention' cfg prefix weights with_bias q_size kv_size =
     (case get_slice2 weights (prefix @ ''.c_attn.weight'') of
        Inl e \<Rightarrow> Inl e
      | Inr slice \<Rightarrow>
          (let world_size = process_group_size weights;
               rank = process_group_rank weights
           in if world_size = 0 then Inl ZeroDivisionError
              else if q_size mod world_size \<noteq> 0 then Inl AssertionError
              else
                (let q_block_size = q_size div world_size;
                     q_start = rank * q_block_size;
                     q_stop = (rank + 1) * q_block_size
                 in if kv_size mod world_size \<noteq> 0 then Inl AssertionError
                    else
                      (let kv_block_size = kv_size div world_size;
                           k_start = q_size + rank * kv_block_size;
                           k_stop = q_size + (rank + 1) * kv_block_size;
                           v_start = q_size + kv_size + rank * kv_block_size;
                           v_stop = q_size + kv_size + (rank + 1) * kv_block_size;
                           (q_tensor, k_tensor, v_tensor) =
                             (if transpose cfg
                              then (col_slice q_start q_stop slice,
                                    col_slice k_start k_stop slice,
                                    col_slice v_start v_stop slice)
                              else (row_slice q_start q_stop slice,
                                    row_slice k_start k_stop slice,
                                    row_slice v_start v_stop slice))
                       in case torch_cat0 [q_tensor, k_tensor, v_tensor] of
                            Inl e \<Rightarrow> Inl e
                          | Inr w \<Rightarrow>
                              (case (if with_bias
                                     then (case get_slice1 weights (prefix @ ''.c_attn.bias'') of
                                             Inl e \<Rightarrow> Inl e
                                           | Inr bslice \<Rightarrow>
                                               Inr (Some (py_slice q_start q_stop bslice
                                                          @ py_slice k_start k_stop bslice
                                                          @ py_slice v_start v_stop bslice)))
                                     else Inr None) of
                                 Inl e \<Rightarrow> Inl e
                               | Inr b \<Rightarrow>
                                   Inr (TensorParallelColumnLinear
                                          (get_linear (tensor_to (to_dtype weights) w)
                                             (map_option (map (to_dtype weights)) b)
                                             (quantize cfg))))))))"

text \<open>
  \<open>load_attention\<close>. In the \<open>gptq\<close> branch the source builds a NotImplementedError object
  and drops it (there is no \<open>raise\<close>), so the function falls off its end and returns
  Python's \<open>None\<close>: the result is an optional layer.
\<close>

definition load_attention ::
  "config \<Rightarrow> string \<Rightarrow> 'a weights \<Rightarrow> bool \<Rightarrow> nat \<Rightarrow> nat \<Rightarrow> error + 'a layer option" where
  "load_attention cfg prefix weights with_bias q_size kv_size =
     (if quantize cfg = Some ''gptq'' then Inr None
      else map_sum id Some (load_attention' cfg prefix weights with_bias q_size kv_size))"

text \<open>\<open>load_row\<close>\<close>

definition load_row :: "config \<Rightarrow> string \<Rightarrow> 'a weights \<Rightarrow> bool \<Rightarrow> error + 'a layer" where
  "load_row cfg prefix weights with_bias =
     (case (if transpose cfg
            then map_sum id tensor_T (get_sharded weights (prefix @ ''.weight'') 0)
            else get_multi_weights_row weights prefix (quantize cfg)) of
        Inl e \<Rightarrow> Inl e
      | Inr w \<Rightarrow>
          (case (if with_bias \<and> process_group_rank weights = 0
                 then map_sum id Some (get_tensor weights (prefix @ ''.bias''))
                 else Inr None) of
             Inl e \<Rightarrow> Inl e
           | Inr b \<Rightarrow> Inr (TensorParallelRowLinear (get_linear w b (quantize cfg)))))"

section \<open>Putting the shards back together\<close>

text \<open>
  The spec's conceptual concatenation across all shards, for the default layout: each
  shard's fused weight is its query block (\<open>q_block\<close> rows), its key block and its value
  block (\<open>kv_block\<close> rows each); the query blocks of all shards, in rank order, are followed
  by the key blocks and then by the value blocks.
\<close>

definition unshard :: "nat \<Rightarrow> nat \<Rightarrow> 'a list list \<Rightarrow> 'a list" where
  "unshard q_block kv_block shards =
     concat (map (py_slice 0 q_block) shards)
     @ concat (map (py_slice q_block (q_block + kv_block)) shards)
     @ concat (map (py_slice (q_block + kv_block) (q_block + kv_block + kv_block)) shards)"

section \<open>The attention module\<close>

text \<open>\<open>torch.arange(a, b)\<close> and \<open>t.repeat_interleave(n)\<close> on one-dimensional tensors.\<close>

definition torch_arange :: "nat \<Rightarrow> nat \<Rightarrow> nat list" where
  "torch_arange a b = [a..<b]"

definition repeat_interleave :: "'a list \<Rightarrow> nat \<Rightarrow> 'a list" where
  "repeat_interleave xs n = concat (map (replicate n) xs)"

text \<open>
  The attributes \<open>FlashShellAttention.__init__\<close> sets on \<open>self\<close>. The rotary table and
  \<open>softmax_scale\<close> are floating-point values and are left out; \<open>query_key_value\<close> is
  optional because \<open>load_attention\<close> can return \<open>None\<close>.
\<close>

record 'a attention =
  self_num_heads :: nat
  self_hidden_size :: nat
  self_head_size :: nat
  self_num_key_value_heads :: nat
  self_query_key_value :: "'a layer option"
  self_o_proj :: "'a layer"
  self_num_groups :: nat
  self_kv_head_mapping :: "nat list"

text \<open>
  \<open>FlashShellAttention.__init__\<close>. Python's \<open>//\<close> and \<open>%\<close> raise ZeroDivisionError on a
  zero divisor, and so does \<open>self.head_size**-0.5\<close> when the head size is zero.
\<close>

definition FlashShellAttention_init ::
  "string \<Rightarrow> config \<Rightarrow> 'a weights \<Rightarrow> error + 'a attention" where
  "FlashShellAttention_init prefix cfg weights =
     (if num_attention_heads cfg = 0 then Inl ZeroDivisionError
      else
        (let head_size = hidden_size cfg div num_attention_heads cfg;
             world_size = process_group_size weights
         in if head_size = 0 then Inl ZeroDivisionError
            else if world_size = 0 then Inl ZeroDivisionError
            else if num_attention_heads cfg mod world_size \<noteq> 0 then Inl ValueError
            else
              (let num_heads = num_attention_heads cfg div world_size;
                   num_key_value_heads' = num_key_value_heads cfg div world_size;
                   q_size = num_attention_heads cfg * head_size;
                   kv_size = num_key_value_heads cfg * head_size
               in case load_attention cfg prefix weights True q_size kv_size of
                    Inl e \<Rightarrow> Inl e
                  | Inr query_key_value \<Rightarrow>
                      (case load_row cfg (prefix @ ''.c_proj'') weights True of
                         Inl e \<Rightarrow> Inl e
                       | Inr o_proj \<Rightarrow>
                           if num_key_value_heads' = 0 then Inl ZeroDivisionError
                           else
                             (let num_groups = num_heads div num_key_value_heads'
                              in Inr \<lparr> self_num_heads = num_heads,
                                       self_hidden_size = hidden_size cfg,
                                       self_head_size = head_size,
                                       self_num_key_value_heads = num_key_value_heads',
                                       self_query_key_value = query_key_value,
                                       self_o_proj = o_proj,
                                       self_num_groups = num_groups,
                                       self_kv_head_mapping =
                                         repeat_interleave
                                           (torch_arange 0 num_key_value_heads')
                                           num_groups \<rparr>)))))"

text \<open>
  The kernels \<open>FlashShellAttention.forward\<close> calls, in the order it calls them; the
  tensors they compute on hold floating-point values and are not modelled. What is kept
  of each call is what decides the control flow and the cache: the per-token key/value
  vectors and slots of the cache write, the sequence boundaries of the dense path, and
  the cache, head mapping, block tables and lengths of the paged path.
\<close>

datatype 'kv kernel_call =
    Call_query_key_value
  | Call_rotary_emb
  | Call_reshape_and_cache "'kv list" "nat list"
  | Call_flash_attn "nat list" nat
  | Call_paged_attention "nat \<rightharpoonup> 'kv" "nat list" "nat list list" "nat list" nat
  | Call_o_proj

text \<open>
  Modelled from the spec: \<open>paged_attention.reshape_and_cache\<close> is a kernel of the
  repository outside the given sources. The spec: "Write key/value for every new token
  into the paged cache at the slot indices supplied by the caller". The cache maps a slot
  to the key/value vectors stored there.
\<close>

fun reshape_and_cache :: "'kv list \<Rightarrow> (nat \<rightharpoonup> 'kv) \<Rightarrow> nat list \<Rightarrow> (nat \<rightharpoonup> 'kv)" where
  "reshape_and_cache (kv # kvs) cache (s # slots) = reshape_and_cache kvs (cache(s \<mapsto> kv)) slots"
| "reshape_and_cache _ cache _ = cache"

text \<open>
  The two kernels \<open>FlashShellAttention.forward\<close> runs before the cache write are
  parameters, and either may raise: \<open>linear_forward\<close> is the call of the fused projection
  on the hidden states (line 220), \<open>rotary_emb\<close> stands for lines 228 to 231 (the views of
  the split projection and the rotary embedding), which give each new token its key/value
  vectors.
\<close>

record ('a, 'x, 'y, 'kv) kernels =
  linear_forward :: "'a layer \<Rightarrow> 'x \<Rightarrow> error + 'y"
  rotary_emb :: "'y \<Rightarrow> error + 'kv list"

text \<open>
  \<open>FlashShellAttention.forward\<close>. Calling \<open>self.query_key_value\<close> when it is \<open>None\<close>
  raises TypeError. The projection \<open>qkv\<close> has one column for each row of the fused shard
  weight (the output width of a linear layer), and \<open>qkv.split\<close> raises RuntimeError unless
  its two sizes, \<open>head_size * num_heads\<close> and \<open>2 * head_size * num_key_value_heads\<close>, add
  up to that width. The kernels from the cache write on are taken to return. The result is
  the list of kernel calls and the cache after the call.
\<close>

definition FlashShellAttention_forward ::
  "'a attention \<Rightarrow> ('a, 'x, 'y, 'kv) kernels \<Rightarrow> 'x \<Rightarrow> nat list option \<Rightarrow> (nat \<rightharpoonup> 'kv)
     \<Rightarrow> nat list list \<Rightarrow> nat list \<Rightarrow> nat list \<Rightarrow> nat
     \<Rightarrow> error + ('kv kernel_call list \<times> (nat \<rightharpoonup> 'kv))" where
  "FlashShellAttention_forward self kernels hidden_states cu_seqlen_prefill kv_cache
      block_tables slots input_lengths max_s =
     (case self_query_key_value self of
        None \<Rightarrow> Inl TypeError
      | Some query_key_value \<Rightarrow>
          (case linear_forward kernels query_key_value hidden_states of
             Inl e \<Rightarrow> Inl e
           | Inr qkv \<Rightarrow>
               if self_head_size self * self_num_heads self
                    + 2 * self_head_size self * self_num_key_value_heads self
                  \<noteq> nrows (weight (linear_of query_key_value))
               then Inl RuntimeError
               else
                 (case rotary_emb kernels qkv of
                    Inl e \<Rightarrow> Inl e
                  | Inr kv \<Rightarrow>
                      (let kv_cache' = reshape_and_cache kv kv_cache slots;
                           attention =
                             (case cu_seqlen_prefill of
                                Some cu \<Rightarrow> Call_flash_attn cu max_s
                              | None \<Rightarrow>
                                  Call_paged_attention kv_cache' (self_kv_head_mapping self)
                                    block_tables input_lengths max_s)
                       in Inr ([Call_query_key_value, Call_rotary_emb,
                                Call_reshape_and_cache kv slots, attention, Call_o_proj],
                               kv_cache')))))"





section \<open>The row-parallel reduction\<close>

text \<open>
  Modelled from the spec: \<open>TensorParallelRowLinear.forward\<close> is outside the given
  sources. The spec: each shard applies its linear layer (adding its bias when it carries
  one) and the outputs are summed by "a collective reduction" across the shards.
  \<open>bias_term\<close> is what one shard's layer adds to an output row of width \<open>n\<close> beyond the
  matrix product; \<open>all_reduce\<close> is the sum across shards, position by position.
\<close>

definition bias_term :: "nat \<Rightarrow> ('a::comm_monoid_add) layer \<Rightarrow> 'a list" where
  "bias_term n l = (case bias (linear_of l) of None \<Rightarrow> replicate n 0 | Some b \<Rightarrow> b)"

definition all_reduce :: "nat \<Rightarrow> ('a::comm_monoid_add) list list \<Rightarrow> 'a list" where
  "all_reduce n vs = foldr (\<lambda>v acc. map2 (+) v acc) vs (replicate n 0)"

section \<open>The causal language model\<close>

text \<open>
  \<open>hidden_states[lm_head_indices]\<close>: indexing the first axis by a tensor of integers. A
  negative index counts from the end; an index outside \<open>[-n, n)\<close> raises IndexError.
\<close>

definition index_select :: "'h list \<Rightarrow> int list \<Rightarrow> error + 'h list" where
  "index_select hs idx =
     (let n = int (length hs)
      in if list_all (\<lambda>i. - n \<le> i \<and> i < n) idx
         then Inr (map (\<lambda>i. hs ! nat (if i < 0 then i + n else i)) idx)
         else Inl IndexError)"

text \<open>
  The eight arguments \<open>FlashShellForCausalLM.forward\<close> hands on to the model.
\<close>

record 'c forward_args =
  input_ids :: "nat list"
  position_ids :: "nat list"
  cu_seqlen_prefill :: "nat list option"
  kv_cache :: 'c
  block_tables :: "nat list list"
  slots :: "nat list"
  input_lengths :: "nat list"
  max_s :: nat

text \<open>
  Modelled from the spec: \<open>TensorParallelHead\<close> is outside the given sources. The spec:
  "head projection to vocabulary-size logits", "returning per-token vocabulary logits":
  the head maps the hidden state of each position to the logits of that position.
\<close>

definition lm_head_apply :: "('h \<Rightarrow> 'l) \<Rightarrow> 'h list \<Rightarrow> 'l list" where
  "lm_head_apply head hs = map head hs"

text \<open>
  \<open>FlashShellForCausalLM.forward\<close>. \<open>model\<close> is \<open>self.model\<close>, which returns the final
  hidden states, one row per position; \<open>head\<close> is the projection of \<open>self.lm_head\<close>.
\<close>

definition FlashShellForCausalLM_forward ::
  "('c forward_args \<Rightarrow> error + 'h list) \<Rightarrow> ('h \<Rightarrow> 'l) \<Rightarrow> 'c forward_args \<Rightarrow> int list option
     \<Rightarrow> error + 'l list" where
  "FlashShellForCausalLM_forward model head args lm_head_indices =
     (case model args of
        Inl e \<Rightarrow> Inl e
      | Inr hidden_states \<Rightarrow>
          (case (case lm_head_indices of
                   Some idx \<Rightarrow> index_select hidden_states idx
                 | None \<Rightarrow> Inr hidden_states) of
             Inl e \<Rightarrow> Inl e
           | Inr hidden_states' \<Rightarrow> Inr (lm_head_apply head hidden_states')))"

section \<open>Concrete inputs\<close>

text \<open>
  A weight source that serves the tensor \<open>t\<close> under every weight name and the vector
  \<open>b\<close> under every bias name, for shard \<open>r\<close> of \<open>ws\<close>, without dtype conversion.
\<close>

definition mk_weights :: "nat \<Rightarrow> nat \<Rightarrow> 'a tensor2 \<Rightarrow> 'a list \<Rightarrow> 'a weights" where
  "mk_weights ws r t b =
     \<lparr> process_group_size = ws, process_group_rank = r,
       get_slice2 = (\<lambda>_. Inr t), get_slice1 = (\<lambda>_. Inr b), get_tensor = (\<lambda>_. Inr b),
       get_sharded = (\<lambda>_ _. Inr t), get_multi_weights_row = (\<lambda>_ _. Inr t),
       to_dtype = id \<rparr>"

text \<open>
  A configuration with the given head counts, hidden size, quantization mode and layout
  flag; the other fields have the defaults of \<open>ShellConfig\<close>.
\<close>

definition mk_config :: "nat \<Rightarrow> nat \<Rightarrow> nat \<Rightarrow> string option \<Rightarrow> bool \<Rightarrow> config" where
  "mk_config heads kv_heads hidden q tr =
     shell_config.extend
       (ShellConfig_init 70144 hidden 16384 42 heads (Some kv_heads)
          ''gelu_pytorch_tanh'' 8192 True 1)
       (config.fields q tr None)"

text \<open>
  A fused weight of eight rows and one column (four query rows, two key rows, two value
  rows), and its bias.
\<close>

definition ex_fused :: "nat tensor2" where
  "ex_fused = Tensor2 1 [[0], [1], [2], [3], [4], [5], [6], [7]]"

definition ex_bias :: "nat list" where
  "ex_bias = [0, 1, 2, 3, 4, 5, 6, 7]"

text \<open>
  A fused weight in the transposed layout: two rows (the hidden size) and four columns
  (two query columns, one key column, one value column).
\<close>

definition ex_fused_T :: "nat tensor2" where
  "ex_fused_T = Tensor2 4 [[1, 2, 3, 4], [5, 6, 7, 8]]"

text \<open>
  A fused weight in the transposed layout with query, key and value segments of the same
  width: two rows and six columns (two columns for each segment).
\<close>

definition ex_fused_T_mha :: "nat tensor2" where
  "ex_fused_T_mha = Tensor2 6 [[1, 2, 3, 4, 5, 6], [7, 8, 9, 10, 11, 12]]"

text \<open>
  A fused weight for six query heads and three key/value heads of size two (24 rows, 12
  columns), one for eight query heads and two key/value heads of size one (12 rows, 8
  columns), and one for two query and two key/value heads of size one (6 rows, 2 columns).
\<close>

definition ex_fused_gqa :: "nat tensor2" where
  "ex_fused_gqa = Tensor2 12 (replicate 24 (replicate 12 0))"

definition ex_bias_gqa :: "nat list" where
  "ex_bias_gqa = replicate 24 0"

definition ex_fused_8_2 :: "nat tensor2" where
  "ex_fused_8_2 = Tensor2 8 (replicate 12 (replicate 8 0))"

definition ex_fused_mha :: "nat tensor2" where
  "ex_fused_mha = Tensor2 2 (replicate 6 (replicate 2 0))"



definition ex_args :: "unit forward_args" where
  "ex_args = \<lparr> input_ids = [11, 12, 13], position_ids = [0, 1, 2],
       cu_seqlen_prefill = Some [0, 3], kv_cache = (), block_tables = [], slots = [4, 5, 6],
       input_lengths = [3], max_s = 3 \<rparr>"

definition ex_attrs :: "string \<Rightarrow> checkpoint_attrs" where
  "ex_attrs arch = \<lparr> num_query_groups = Some 8, activation_function = Some ''gelu_pytorch_tanh'',
       n_embd = Some 4096, architectures = Some [arch] \<rparr>"

section \<open>Unfolding rules\<close>

lemmas ex_defs = mk_weights_def mk_config_def ex_fused_def ex_bias_def ex_fused_T_def
  ex_fused_T_mha_def
  ex_fused_gqa_def ex_bias_gqa_def ex_fused_8_2_def ex_fused_mha_def
  ShellConfig_init_def shell_config.defs config.defs

lemmas loader_defs = load_attention_def load_attention'_def load_row_def get_linear_def
  row_slice_def col_slice_def py_slice_def tensor_to_def tensor_T_def nrows_def

section \<open>Slices of segments\<close>

lemma py_slice_segment:
  "b \<le> n \<Longrightarrow> py_slice a b (py_slice off (off + n) xs) = py_slice (off + a) (off + b) xs"
  by (simp add: py_slice_def drop_take min_def add.commute)


lemma col_slice_segment:
  "b \<le> n \<Longrightarrow> col_slice a b (col_slice off (off + n) t) = col_slice (off + a) (off + b) t"
  by (auto simp add: col_slice_def py_slice_segment min_def)

lemma col_slice_segment0:
  "b \<le> n \<Longrightarrow> col_slice a b (col_slice 0 n t) = col_slice a b t"
  using col_slice_segment [of b n a 0 t] by simp

lemma block_bound:
  fixes r ws n :: nat
  assumes "r < ws" "n mod ws = 0"
  shows "(r + 1) * (n div ws) \<le> n"
proof -
  have "(r + 1) * (n div ws) \<le> ws * (n div ws)"
    using assms(1) by (intro mult_right_mono) simp_all
  also have "\<dots> = n" using assms(2) by (simp add: mod_eq_0_iff_dvd)
  finally show ?thesis .
qed


lemma load_attention'_rows:
  assumes "get_slice2 weights (prefix @ ''.c_attn.weight'') = Inr slice"
    and "with_bias \<longrightarrow> get_slice1 weights (prefix @ ''.c_attn.bias'') = Inr bslice"
    and "0 < process_group_size weights"
    and "q_size mod process_group_size weights = 0"
    and "kv_size mod process_group_size weights = 0"
    and "\<not> transpose cfg"
  shows "load_attention' cfg prefix weights with_bias q_size kv_size =
    (let r = process_group_rank weights;
         qb = q_size div process_group_size weights;
         kvb = kv_size div process_group_size weights
     in Inr (TensorParallelColumnLinear
          (get_linear
            (tensor_to (to_dtype weights)
              (Tensor2 (ncols slice)
                (py_slice (r * qb) ((r + 1) * qb) (rws slice)
                 @ py_slice (q_size + r * kvb) (q_size + (r + 1) * kvb) (rws slice)
                 @ py_slice (q_size + kv_size + r * kvb) (q_size + kv_size + (r + 1) * kvb) (rws slice))))
            (if with_bias
             then Some (map (to_dtype weights)
                    (py_slice (r * qb) ((r + 1) * qb) bslice
                     @ py_slice (q_size + r * kvb) (q_size + (r + 1) * kvb) bslice
                     @ py_slice (q_size + kv_size + r * kvb) (q_size + kv_size + (r + 1) * kvb) bslice))
             else None)
            (quantize cfg))))"
  using assms
  by (cases with_bias) (simp_all add: load_attention'_def Let_def row_slice_def)

lemma load_attention'_cols:
  assumes "get_slice2 weights (prefix @ ''.c_attn.weight'') = Inr slice"
    and "with_bias \<longrightarrow> get_slice1 weights (prefix @ ''.c_attn.bias'') = Inr bslice"
    and "0 < process_group_size weights"
    and "q_size mod process_group_size weights = 0"
    and "kv_size mod process_group_size weights = 0"
    and "transpose cfg"
  shows "load_attention' cfg prefix weights with_bias q_size kv_size =
    (let r = process_group_rank weights;
         qb = q_size div process_group_size weights;
         kvb = kv_size div process_group_size weights
     in case torch_cat0
          [col_slice (r * qb) ((r + 1) * qb) slice,
           col_slice (q_size + r * kvb) (q_size + (r + 1) * kvb) slice,
           col_slice (q_size + kv_size + r * kvb) (q_size + kv_size + (r + 1) * kvb) slice] of
          Inl e \<Rightarrow> Inl e
        | Inr w \<Rightarrow>
          Inr (TensorParallelColumnLinear
           (get_linear (tensor_to (to_dtype weights) w)
            (if with_bias
             then Some (map (to_dtype weights)
                    (py_slice (r * qb) ((r + 1) * qb) bslice
                     @ py_slice (q_size + r * kvb) (q_size + (r + 1) * kvb) bslice
                     @ py_slice (q_size + kv_size + r * kvb) (q_size + kv_size + (r + 1) * kvb) bslice))
             else None)
            (quantize cfg))))"
  using assms
  by (cases with_bias) (simp_all add: load_attention'_def Let_def split: sum.splits)

section \<open>The fused attention weight\<close>




section \<open>The round trip in the default layout\<close>

lemma py_slice_blocks:
  assumes "length A = a" "length B = b" "length C = c"
  shows "py_slice 0 a (A @ B @ C) = A"
    and "py_slice a (a + b) (A @ B @ C) = B"
    and "py_slice (a + b) (a + b + c) (A @ B @ C) = C"
  using assms by (simp_all add: py_slice_def)

lemma length_py_slice: "b \<le> length xs \<Longrightarrow> length (py_slice a b xs) = b - a"
  by (simp add: py_slice_def)

lemma py_slice_append:
  "py_slice off (off + m) xs @ py_slice (off + m) (off + m + b) xs = py_slice off (off + m + b) xs"
proof -
  have "take (m + b) (drop off xs) = take m (drop off xs) @ take b (drop m (drop off xs))"
    by (rule take_add)
  moreover have "drop m (drop off xs) = drop (off + m) xs"
    by (simp add: add.commute)
  ultimately show ?thesis by (simp add: py_slice_def add.assoc)
qed

lemma concat_py_slices:
  "concat (map (\<lambda>r. py_slice (off + r * b) (off + (r + 1) * b) xs) [0..<n])
     = py_slice off (off + n * b) xs"
proof (induction n)
  case 0
  show ?case by (simp add: py_slice_def)
next
  case (Suc n)
  have "concat (map (\<lambda>r. py_slice (off + r * b) (off + (r + 1) * b) xs) [0..<Suc n])
      = py_slice off (off + n * b) xs @ py_slice (off + n * b) (off + n * b + b) xs"
    using Suc by (simp add: add.commute add.left_commute)
  also have "\<dots> = py_slice off (off + n * b + b) xs"
    by (rule py_slice_append)
  also have "off + n * b + b = off + Suc n * b" by simp
  finally show ?case .
qed

lemma py_slice_partition:
  assumes len: "length xs = q + k + k"
  shows "py_slice 0 q xs @ py_slice q (q + k) xs @ py_slice (q + k) (q + k + k) xs = xs"
proof -
  have p: "py_slice 0 q xs = take q xs" "py_slice q (q + k) xs = take k (drop q xs)"
    "py_slice (q + k) (q + k + k) xs = take k (drop (q + k) xs)"
    by (simp_all add: py_slice_def)
  have a: "take k (drop (q + k) xs) = drop k (drop q xs)"
    using len by (simp add: add.commute)
  have "take q xs @ (take k (drop q xs) @ drop k (drop q xs)) = xs"
    by (simp only: append_take_drop_id)
  then show ?thesis unfolding p a .
qed

text \<open>
  In the default (non-transposed) layout, for sizes divisible by the shard count and a
  fused weight of \<open>q_size + 2 * kv_size\<close> rows, loading the shard of every rank and
  concatenating the shards' query, key and value blocks gives back the fused weight
  (converted to the weights' dtype).
\<close>

theorem unshard_row_layout:
  fixes w :: "'a weights" and q_size kv_size :: nat
  defines "ws \<equiv> process_group_size w"
  defines "qb \<equiv> q_size div ws" and "kvb \<equiv> kv_size div ws"
  assumes slice: "get_slice2 w (prefix @ ''.c_attn.weight'') = Inr slice"
    and bslice: "with_bias \<longrightarrow> get_slice1 w (prefix @ ''.c_attn.bias'') = Inr bslice"
    and ws: "0 < ws"
    and q: "q_size mod ws = 0" and k: "kv_size mod ws = 0"
    and nt: "\<not> transpose cfg"
    and shape: "nrows slice = q_size + kv_size + kv_size"
  shows "unshard qb kvb
           (map (\<lambda>r. rws (weight (linear_of (projr
                   (load_attention' cfg prefix (w\<lparr>process_group_rank := r\<rparr>)
                      with_bias q_size kv_size)))))
              [0..<ws])
         = map (map (to_dtype w)) (rws slice)"
proof -
  let ?f = "map (to_dtype w)"
  let ?xs = "rws slice"
  let ?A = "\<lambda>r. py_slice (0 + r * qb) (0 + (r + 1) * qb) ?xs"
  let ?B = "\<lambda>r. py_slice (q_size + r * kvb) (q_size + (r + 1) * kvb) ?xs"
  let ?C = "\<lambda>r. py_slice (q_size + kv_size + r * kvb) (q_size + kv_size + (r + 1) * kvb) ?xs"
  have len: "length ?xs = q_size + kv_size + kv_size"
    using shape by (simp add: nrows_def)
  have rows: "rws (weight (linear_of (projr
                   (load_attention' cfg prefix (w\<lparr>process_group_rank := r\<rparr>)
                      with_bias q_size kv_size))))
        = map ?f (?A r) @ map ?f (?B r) @ map ?f (?C r)" for r
  proof -
    have "load_attention' cfg prefix (w\<lparr>process_group_rank := r\<rparr>) with_bias q_size kv_size
        = (let r' = process_group_rank (w\<lparr>process_group_rank := r\<rparr>);
               qb' = q_size div process_group_size (w\<lparr>process_group_rank := r\<rparr>);
               kvb' = kv_size div process_group_size (w\<lparr>process_group_rank := r\<rparr>)
           in Inr (TensorParallelColumnLinear
                (get_linear
                  (tensor_to (to_dtype (w\<lparr>process_group_rank := r\<rparr>))
                    (Tensor2 (ncols slice)
                      (py_slice (r' * qb') ((r' + 1) * qb') (rws slice)
                       @ py_slice (q_size + r' * kvb') (q_size + (r' + 1) * kvb') (rws slice)
                       @ py_slice (q_size + kv_size + r' * kvb')
                           (q_size + kv_size + (r' + 1) * kvb') (rws slice))))
                  (if with_bias
                   then Some (map (to_dtype (w\<lparr>process_group_rank := r\<rparr>))
                          (py_slice (r' * qb') ((r' + 1) * qb') bslice
                           @ py_slice (q_size + r' * kvb') (q_size + (r' + 1) * kvb') bslice
                           @ py_slice (q_size + kv_size + r' * kvb')
                               (q_size + kv_size + (r' + 1) * kvb') bslice))
                   else None)
                  (quantize cfg))))"
      using slice bslice ws q k nt unfolding ws_def
      by (intro load_attention'_rows) simp_all
    then show ?thesis
      by (simp add: Let_def get_linear_def tensor_to_def ws_def qb_def kvb_def)
  qed
  have bq: "(r + 1) * qb \<le> q_size" and bk: "(r + 1) * kvb \<le> kv_size" if "r < ws" for r
    unfolding qb_def kvb_def using block_bound [OF that q] block_bound [OF that k] by simp_all
  have lA: "length (map ?f (?A r)) = qb" if "r < ws" for r
    using bq [OF that] len by (simp add: length_py_slice)
  have lB: "length (map ?f (?B r)) = kvb" if "r < ws" for r
    using bk [OF that] len by (simp add: length_py_slice)
  have lC: "length (map ?f (?C r)) = kvb" if "r < ws" for r
    using bk [OF that] len by (simp add: length_py_slice)
  have PA: "py_slice 0 qb (map ?f (?A r) @ map ?f (?B r) @ map ?f (?C r)) = map ?f (?A r)"
    and PB: "py_slice qb (qb + kvb) (map ?f (?A r) @ map ?f (?B r) @ map ?f (?C r))
               = map ?f (?B r)"
    and PC: "py_slice (qb + kvb) (qb + kvb + kvb)
                 (map ?f (?A r) @ map ?f (?B r) @ map ?f (?C r)) = map ?f (?C r)"
    if "r < ws" for r
    by (rule py_slice_blocks [OF lA [OF that] lB [OF that] lC [OF that]])+
  have A: "map (\<lambda>r. py_slice 0 qb (map ?f (?A r) @ map ?f (?B r) @ map ?f (?C r))) [0..<ws]
         = map (\<lambda>r. map ?f (?A r)) [0..<ws]"
    by (intro map_cong refl PA) simp
  have B: "map (\<lambda>r. py_slice qb (qb + kvb) (map ?f (?A r) @ map ?f (?B r) @ map ?f (?C r)))
             [0..<ws]
         = map (\<lambda>r. map ?f (?B r)) [0..<ws]"
    by (intro map_cong refl PB) simp
  have C: "map (\<lambda>r. py_slice (qb + kvb) (qb + kvb + kvb)
                 (map ?f (?A r) @ map ?f (?B r) @ map ?f (?C r))) [0..<ws]
         = map (\<lambda>r. map ?f (?C r)) [0..<ws]"
    by (intro map_cong refl PC) simp
  have cm: "concat (map (\<lambda>r. map ?f (g r)) [0..<ws]) = map ?f (concat (map g [0..<ws]))"
    for g :: "nat \<Rightarrow> 'a list list"
    by (simp add: map_concat comp_def)
  have wq: "ws * qb = q_size" and wk: "ws * kvb = kv_size"
    unfolding qb_def kvb_def using q k by (simp_all add: mod_eq_0_iff_dvd)
  have "unshard qb kvb
           (map (\<lambda>r. rws (weight (linear_of (projr
                   (load_attention' cfg prefix (w\<lparr>process_group_rank := r\<rparr>)
                      with_bias q_size kv_size)))))
              [0..<ws])
      = map ?f (concat (map ?A [0..<ws])) @ map ?f (concat (map ?B [0..<ws]))
          @ map ?f (concat (map ?C [0..<ws]))"
    unfolding unshard_def rows map_map comp_def A B C cm ..
  also have "\<dots> = map ?f (py_slice 0 (0 + ws * qb) ?xs @ py_slice q_size (q_size + ws * kvb) ?xs
          @ py_slice (q_size + kv_size) (q_size + kv_size + ws * kvb) ?xs)"
    unfolding concat_py_slices by simp
  also have "\<dots> = map ?f ?xs"
    unfolding wq wk using py_slice_partition [OF len] by simp
  finally show ?thesis .
qed

theorem unshard_row_layout_witness:
  "unshard 2 1
     (map (\<lambda>r. rws (weight (linear_of (projr
             (load_attention' (mk_config 4 2 4 None False) ''attn''
                ((mk_weights 2 0 ex_fused ex_bias)\<lparr>process_group_rank := r\<rparr>) True 4 2)))))
        [0..<2])
    = [[0], [1], [2], [3], [4], [5], [6], [7]]"
  using unshard_row_layout [where w = "mk_weights 2 0 ex_fused ex_bias" and prefix = "''attn''"
      and slice = ex_fused and bslice = ex_bias and with_bias = True
      and cfg = "mk_config 4 2 4 None False" and q_size = 4 and kv_size = 2]
  by (simp add: mk_weights_def mk_config_def ex_fused_def ex_bias_def ShellConfig_init_def
      shell_config.defs config.defs nrows_def)

text \<open>
  Claim C1, at a failing input. In the transposed layout the three slices are taken along
  the second axis and then stacked along the first (\<open>torch.cat(..., dim=0)\<close>). With two
  query heads and one key/value head the query slice has two columns and the key and value
  slices one each, so the concatenation raises and no shard weight is produced: there is
  nothing to concatenate across shards, and constructing the attention module fails.
\<close>

theorem load_attention_transposed_fails:
  "load_attention' (mk_config 2 1 2 None True) ''attn''
      (mk_weights 1 0 ex_fused_T [1, 2, 3, 4]) True 2 1 = Inl RuntimeError
   \<and> FlashShellAttention_init ''attn'' (mk_config 2 1 2 None True)
      (mk_weights 1 0 ex_fused_T [1, 2, 3, 4]) = Inl RuntimeError"
  by (simp add: FlashShellAttention_init_def ex_defs loader_defs)

text \<open>
  Claim C2, at a failing input. With the quantization mode \<open>gptq\<close>, \<open>load_attention\<close>
  raises nothing: it returns \<open>None\<close>. The attention module is then constructed with
  \<open>query_key_value = None\<close>, and the failure only shows in the first forward call, as a
  TypeError.
\<close>

theorem load_attention_gptq_returns_None:
  "load_attention (cfg\<lparr>quantize := Some ''gptq''\<rparr>) prefix weights with_bias q_size kv_size = Inr None
   \<and> (case FlashShellAttention_init ''attn'' (mk_config 4 2 4 (Some ''gptq'') False)
              (mk_weights 2 1 ex_fused ex_bias) of
         Inl e \<Rightarrow> False
       | Inr m \<Rightarrow> self_query_key_value m = None
           \<and> FlashShellAttention_forward m project hs cu cache bt sl
                lens ms = Inl TypeError)"
  by (simp add: load_attention_def FlashShellAttention_init_def FlashShellAttention_forward_def
      load_row_def ex_defs get_linear_def)

section \<open>Construction of the attention module\<close>






section \<open>The head mapping\<close>

lemma length_repeat_interleave: "length (repeat_interleave xs n) = length xs * n"
  by (induction xs) (simp_all add: repeat_interleave_def)

lemma repeat_interleave_Cons:
  "repeat_interleave (x # xs) n = replicate n x @ repeat_interleave xs n"
  by (simp add: repeat_interleave_def)

lemma nth_repeat_interleave:
  "i < length xs * n \<Longrightarrow> repeat_interleave xs n ! i = xs ! (i div n)"
proof (induction xs arbitrary: i)
  case Nil
  then show ?case by simp
next
  case (Cons x xs)
  show ?case
  proof (cases "i < n")
    case True
    then show ?thesis by (simp add: repeat_interleave_Cons nth_append)
  next
    case False
    then have ge: "n \<le> i" by simp
    from Cons.prems ge have "i - n < length xs * n" by simp
    then have "repeat_interleave xs n ! (i - n) = xs ! ((i - n) div n)"
      by (rule Cons.IH)
    moreover from Cons.prems have "0 < n" by (cases n) simp_all
    then have "i div n = Suc ((i - n) div n)" using ge by (simp add: le_div_geq)
    ultimately show ?thesis using False by (simp add: repeat_interleave_Cons nth_append)
  qed
qed

lemma init_fields:
  assumes "FlashShellAttention_init prefix cfg w = Inr m"
  shows "self_num_heads m = num_attention_heads cfg div process_group_size w"
    and "self_num_key_value_heads m = num_key_value_heads cfg div process_group_size w"
    and "self_head_size m = hidden_size cfg div num_attention_heads cfg"
    and "self_num_groups m = self_num_heads m div self_num_key_value_heads m"
    and "self_kv_head_mapping m
          = repeat_interleave (torch_arange 0 (self_num_key_value_heads m)) (self_num_groups m)"
    and "0 < self_num_key_value_heads m"
    and "0 < process_group_size w"
    and "num_attention_heads cfg mod process_group_size w = 0"
  using assms
  by (auto simp add: FlashShellAttention_init_def Let_def split: if_splits sum.splits)

text \<open>
  Claim C5. The head mapping of a constructed attention module is the repeat-interleave
  schedule: with \<open>num_heads\<close> and \<open>num_key_value_heads\<close> the module's (per-shard) head
  counts and the latter dividing the former, the group size is their quotient, the mapping
  has one entry per query head, and query head \<open>i\<close> maps to key/value head \<open>i\<close> divided by
  the group size. When the shard count divides the configured number of key/value heads
  and that divides the configured number of attention heads, the group size is the
  quotient of the configured counts. For 8 heads and 2 key/value heads the mapping is
  \<open>[0, 0, 0, 0, 1, 1, 1, 1]\<close>.
\<close>

theorem kv_head_mapping_repeat_interleave:
  assumes ok: "FlashShellAttention_init prefix cfg w = Inr m"
    and dv: "self_num_key_value_heads m dvd self_num_heads m"
  shows "self_num_groups m = self_num_heads m div self_num_key_value_heads m
       \<and> length (self_kv_head_mapping m) = self_num_heads m
       \<and> (\<forall>i<self_num_heads m. self_kv_head_mapping m ! i = i div self_num_groups m)
       \<and> (process_group_size w dvd num_key_value_heads cfg
            \<and> num_key_value_heads cfg dvd num_attention_heads cfg
          \<longrightarrow> self_num_groups m = num_attention_heads cfg div num_key_value_heads cfg)
       \<and> map_sum id self_kv_head_mapping
            (FlashShellAttention_init ''attn'' (mk_config 8 2 8 None False)
               (mk_weights 1 0 ex_fused_8_2 (replicate 12 0)))
          = Inr [0, 0, 0, 0, 1, 1, 1, 1]"
proof (intro conjI allI impI)
  note f = init_fields [OF ok]
  show g: "self_num_groups m = self_num_heads m div self_num_key_value_heads m"
    by (rule f(4))
  have len: "length (self_kv_head_mapping m) = self_num_key_value_heads m * self_num_groups m"
    unfolding f(5) by (simp add: length_repeat_interleave torch_arange_def)
  also have "\<dots> = self_num_heads m"
    unfolding g using dv by simp
  finally show l: "length (self_kv_head_mapping m) = self_num_heads m" .
  show "self_kv_head_mapping m ! i = i div self_num_groups m" if "i < self_num_heads m" for i
  proof -
    from that l len have i: "i < self_num_key_value_heads m * self_num_groups m" by simp
    then have pos: "0 < self_num_groups m" by (cases "self_num_groups m") simp_all
    from i have "i div self_num_groups m < self_num_key_value_heads m"
      using pos by (simp add: less_mult_imp_div_less)
    moreover have "self_kv_head_mapping m ! i
        = torch_arange 0 (self_num_key_value_heads m) ! (i div self_num_groups m)"
      unfolding f(5) using i by (intro nth_repeat_interleave) (simp add: torch_arange_def)
    ultimately show ?thesis by (simp add: torch_arange_def)
  qed
  show "self_num_groups m = num_attention_heads cfg div num_key_value_heads cfg"
    if h: "process_group_size w dvd num_key_value_heads cfg
            \<and> num_key_value_heads cfg dvd num_attention_heads cfg"
  proof -
    from h obtain k where k: "num_key_value_heads cfg = process_group_size w * k"
      by (auto elim: dvdE)
    from h obtain j where j: "num_attention_heads cfg = num_key_value_heads cfg * j"
      by (auto elim: dvdE)
    have ws: "0 < process_group_size w" by (rule f(7))
    have kpos: "0 < k" using f(6) f(2) k ws by (cases k) simp_all
    have "self_num_key_value_heads m = k" using f(2) k ws by simp
    moreover have "self_num_heads m = k * j" using f(1) j k ws by simp
    ultimately have "self_num_groups m = j" using g kpos by simp
    moreover have "num_attention_heads cfg div num_key_value_heads cfg = j"
      using j k kpos ws by simp
    ultimately show ?thesis by simp
  qed
  show "map_sum id self_kv_head_mapping
            (FlashShellAttention_init ''attn'' (mk_config 8 2 8 None False)
               (mk_weights 1 0 ex_fused_8_2 (replicate 12 0)))
          = Inr [0, 0, 0, 0, 1, 1, 1, 1]"
  proof -
    have m: "repeat_interleave (torch_arange 0 2) 4 = [0, 0, 0, 0, 1, 1, 1, 1::nat]"
      by code_simp
    have "map_sum id self_kv_head_mapping
            (FlashShellAttention_init ''attn'' (mk_config 8 2 8 None False)
               (mk_weights 1 0 ex_fused_8_2 (replicate 12 0)))
          = Inr (repeat_interleave (torch_arange 0 2) 4)"
      by (simp add: FlashShellAttention_init_def ex_defs loader_defs Let_def)
    then show ?thesis unfolding m .
  qed
qed

theorem kv_head_mapping_repeat_interleave_witness:
  "\<not> isl (FlashShellAttention_init ''attn'' (mk_config 8 2 8 None False)
             (mk_weights 1 0 ex_fused_8_2 (replicate 12 0)))
   \<and> self_num_heads (projr (FlashShellAttention_init ''attn'' (mk_config 8 2 8 None False)
             (mk_weights 1 0 ex_fused_8_2 (replicate 12 0)))) = 8
   \<and> self_num_key_value_heads (projr (FlashShellAttention_init ''attn''
             (mk_config 8 2 8 None False) (mk_weights 1 0 ex_fused_8_2 (replicate 12 0)))) = 2
   \<and> self_num_groups (projr (FlashShellAttention_init ''attn'' (mk_config 8 2 8 None False)
             (mk_weights 1 0 ex_fused_8_2 (replicate 12 0)))) = 4
   \<and> self_kv_head_mapping (projr (FlashShellAttention_init ''attn''
             (mk_config 8 2 8 None False) (mk_weights 1 0 ex_fused_8_2 (replicate 12 0)))) ! 3
          = 0
   \<and> self_kv_head_mapping (projr (FlashShellAttention_init ''attn''
             (mk_config 8 2 8 None False) (mk_weights 1 0 ex_fused_8_2 (replicate 12 0)))) ! 4
          = 1"
proof -
  have e: "FlashShellAttention_init ''attn'' (mk_config 8 2 8 None False)
             (mk_weights 1 0 ex_fused_8_2 (replicate 12 0))
     = Inr (projr (FlashShellAttention_init ''attn'' (mk_config 8 2 8 None False)
             (mk_weights 1 0 ex_fused_8_2 (replicate 12 0))))"
    by (simp add: FlashShellAttention_init_def ex_defs loader_defs Let_def)
  have f: "self_num_heads (projr (FlashShellAttention_init ''attn'' (mk_config 8 2 8 None False)
             (mk_weights 1 0 ex_fused_8_2 (replicate 12 0)))) = 8"
      "self_num_key_value_heads (projr (FlashShellAttention_init ''attn''
             (mk_config 8 2 8 None False) (mk_weights 1 0 ex_fused_8_2 (replicate 12 0)))) = 2"
    by (simp_all add: FlashShellAttention_init_def ex_defs loader_defs Let_def)
  have d: "self_num_key_value_heads (projr (FlashShellAttention_init ''attn''
             (mk_config 8 2 8 None False) (mk_weights 1 0 ex_fused_8_2 (replicate 12 0))))
        dvd self_num_heads (projr (FlashShellAttention_init ''attn'' (mk_config 8 2 8 None False)
             (mk_weights 1 0 ex_fused_8_2 (replicate 12 0))))"
    unfolding f by simp
  from e have n: "\<not> isl (FlashShellAttention_init ''attn'' (mk_config 8 2 8 None False)
             (mk_weights 1 0 ex_fused_8_2 (replicate 12 0)))"
    by (metis sum.disc(2))
  from kv_head_mapping_repeat_interleave [OF e d]
  have g: "self_num_groups (projr (FlashShellAttention_init ''attn'' (mk_config 8 2 8 None False)
             (mk_weights 1 0 ex_fused_8_2 (replicate 12 0)))) = 4"
    and i: "\<forall>i<8. self_kv_head_mapping (projr (FlashShellAttention_init ''attn''
             (mk_config 8 2 8 None False) (mk_weights 1 0 ex_fused_8_2 (replicate 12 0)))) ! i
          = i div self_num_groups (projr (FlashShellAttention_init ''attn''
             (mk_config 8 2 8 None False) (mk_weights 1 0 ex_fused_8_2 (replicate 12 0))))"
    unfolding f by simp_all
  from i [unfolded g, rule_format, of 3] i [unfolded g, rule_format, of 4]
  have "self_kv_head_mapping (projr (FlashShellAttention_init ''attn''
             (mk_config 8 2 8 None False) (mk_weights 1 0 ex_fused_8_2 (replicate 12 0)))) ! 3
          = 0"
    and "self_kv_head_mapping (projr (FlashShellAttention_init ''attn''
             (mk_config 8 2 8 None False) (mk_weights 1 0 ex_fused_8_2 (replicate 12 0)))) ! 4
          = 1"
    by simp_all
  with n f g show ?thesis by blast
qed

section \<open>The default number of key/value heads\<close>

text \<open>
  Claim C10. When \<open>num_key_value_heads\<close> is not supplied, \<open>ShellConfig\<close> sets it to
  \<open>num_attention_heads\<close> (32 with the default arguments), and an attention module
  constructed from such a configuration has as many key/value heads as query heads and a
  group size of 1.
\<close>

theorem ShellConfig_default_kv_heads:
  "num_key_value_heads (ShellConfig_init v h i l a None act p u t) = a
   \<and> num_attention_heads (ShellConfig_init v h i l a None act p u t) = a
   \<and> num_key_value_heads ShellConfig_default = num_attention_heads ShellConfig_default
   \<and> num_key_value_heads ShellConfig_default = 32
   \<and> (FlashShellAttention_init prefix
         (shell_config.extend (ShellConfig_init v h i l a None act p u t) (config.fields q tr um))
         w = Inr m
       \<longrightarrow> self_num_key_value_heads m = self_num_heads m \<and> self_num_groups m = 1)"
proof (intro conjI impI)
  show "num_key_value_heads (ShellConfig_init v h i l a None act p u t) = a"
    and "num_attention_heads (ShellConfig_init v h i l a None act p u t) = a"
    by (simp_all add: ShellConfig_init_def)
  show "num_key_value_heads ShellConfig_default = num_attention_heads ShellConfig_default"
    and "num_key_value_heads ShellConfig_default = 32"
    by (simp_all add: ShellConfig_default_def ShellConfig_init_def)
next
  assume ok: "FlashShellAttention_init prefix
         (shell_config.extend (ShellConfig_init v h i l a None act p u t) (config.fields q tr um))
         w = Inr m"
  note f = init_fields [OF ok]
  have kv: "num_key_value_heads
       (shell_config.extend (ShellConfig_init v h i l a None act p u t) (config.fields q tr um))
     = num_attention_heads
       (shell_config.extend (ShellConfig_init v h i l a None act p u t) (config.fields q tr um))"
    by (simp add: ShellConfig_init_def shell_config.defs)
  show eq: "self_num_key_value_heads m = self_num_heads m"
    unfolding f(1) f(2) kv ..
  show "self_num_groups m = 1"
    unfolding f(4) eq using f(6) eq by simp
qed

theorem ShellConfig_default_kv_heads_witness:
  "\<not> isl (FlashShellAttention_init ''attn''
         (shell_config.extend
            (ShellConfig_init 70144 2 16384 42 2 None ''gelu_pytorch_tanh'' 8192 True 1)
            (config.fields None False None))
         (mk_weights 1 0 ex_fused_mha (replicate 6 0)))
   \<and> self_num_groups (projr (FlashShellAttention_init ''attn''
         (shell_config.extend
            (ShellConfig_init 70144 2 16384 42 2 None ''gelu_pytorch_tanh'' 8192 True 1)
            (config.fields None False None))
         (mk_weights 1 0 ex_fused_mha (replicate 6 0)))) = 1"
proof -
  have e: "FlashShellAttention_init ''attn''
         (shell_config.extend
            (ShellConfig_init 70144 2 16384 42 2 None ''gelu_pytorch_tanh'' 8192 True 1)
            (config.fields None False None))
         (mk_weights 1 0 ex_fused_mha (replicate 6 0))
     = Inr (projr (FlashShellAttention_init ''attn''
         (shell_config.extend
            (ShellConfig_init 70144 2 16384 42 2 None ''gelu_pytorch_tanh'' 8192 True 1)
            (config.fields None False None))
         (mk_weights 1 0 ex_fused_mha (replicate 6 0))))"
    by (simp add: FlashShellAttention_init_def ex_defs loader_defs Let_def)
  from ShellConfig_default_kv_heads [where m = "projr (FlashShellAttention_init ''attn''
         (shell_config.extend
            (ShellConfig_init 70144 2 16384 42 2 None ''gelu_pytorch_tanh'' 8192 True 1)
            (config.fields None False None))
         (mk_weights 1 0 ex_fused_mha (replicate 6 0)))" and prefix = "''attn''"
      and w = "mk_weights 1 0 ex_fused_mha (replicate 6 0)"
      and v = 70144 and h = 2 and i = 16384 and l = 42 and a = 2
      and act = "''gelu_pytorch_tanh''" and p = 8192 and u = True and t = 1
      and q = None and tr = False and um = None] e
  have "self_num_groups (projr (FlashShellAttention_init ''attn''
         (shell_config.extend
            (ShellConfig_init 70144 2 16384 42 2 None ''gelu_pytorch_tanh'' 8192 True 1)
            (config.fields None False None))
         (mk_weights 1 0 ex_fused_mha (replicate 6 0)))) = 1"
    by blast
  moreover from e have "\<not> isl (FlashShellAttention_init ''attn''
         (shell_config.extend
            (ShellConfig_init 70144 2 16384 42 2 None ''gelu_pytorch_tanh'' 8192 True 1)
            (config.fields None False None))
         (mk_weights 1 0 ex_fused_mha (replicate 6 0)))"
    by (metis sum.disc(2))
  ultimately show ?thesis by blast
qed

section \<open>The bias of the row-parallel projection\<close>

lemma map2_add_zeros:
  "map2 (+) b (replicate (length b) (0::'a::comm_monoid_add)) = b"
  by (induction b) simp_all

lemma foldr_zeros:
  "list_all (\<lambda>v. v = replicate n (0::'a::comm_monoid_add)) vs \<Longrightarrow>
     foldr (\<lambda>v acc. map2 (+) v acc) vs (replicate n 0) = replicate n 0"
  by (induction vs) (simp_all add: zip_replicate)

lemma load_row_bias:
  assumes "\<not> isl (if transpose cfg then get_sharded w (prefix @ ''.weight'') 0
                   else get_multi_weights_row w prefix (quantize cfg))"
    and "process_group_rank w = 0 \<longrightarrow> get_tensor w (prefix @ ''.bias'') = Inr b"
  shows "\<exists>l. load_row cfg prefix w True = Inr (TensorParallelRowLinear l)
           \<and> bias l = (if process_group_rank w = 0 then Some b else None)"
  using assms
  by (cases "transpose cfg"; cases "get_sharded w (prefix @ ''.weight'') 0";
      cases "get_multi_weights_row w prefix (quantize cfg)")
     (auto simp add: load_row_def get_linear_def)

text \<open>
  Claim C4. For every shard count \<open>ws\<close>, with one weight source per rank, \<open>load_row\<close> with
  bias enabled attaches the bias tensor on rank 0 and on no other rank; summing over all
  shards what each shard's layer adds beyond its matrix product gives exactly one copy of
  the unsharded bias.
\<close>

theorem load_row_bias_once:
  fixes W :: "nat \<Rightarrow> ('a::comm_monoid_add) weights"
  assumes ws: "0 < ws"
    and ranks: "\<forall>r<ws. process_group_rank (W r) = r"
    and bias0: "get_tensor (W 0) (prefix @ ''.bias'') = Inr b"
    and loads: "\<forall>r<ws. \<not> isl (if transpose cfg then get_sharded (W r) (prefix @ ''.weight'') 0
                   else get_multi_weights_row (W r) prefix (quantize cfg))"
  shows "(\<forall>r<ws. \<exists>l. load_row cfg prefix (W r) True = Inr (TensorParallelRowLinear l)
            \<and> bias l = (if r = 0 then Some b else None))
       \<and> all_reduce (length b)
            (map (\<lambda>r. bias_term (length b) (projr (load_row cfg prefix (W r) True))) [0..<ws])
          = b"
proof -
  have each: "\<exists>l. load_row cfg prefix (W r) True = Inr (TensorParallelRowLinear l)
            \<and> bias l = (if r = 0 then Some b else None)" if "r < ws" for r
  proof -
    have "process_group_rank (W r) = 0 \<longrightarrow> get_tensor (W r) (prefix @ ''.bias'') = Inr b"
      using ranks that bias0 by auto
    from load_row_bias [OF loads [rule_format, OF that] this]
    show ?thesis using ranks that by simp
  qed
  have t0: "bias_term (length b) (projr (load_row cfg prefix (W 0) True)) = b"
    using each [OF ws] by (auto simp add: bias_term_def)
  have tr: "bias_term (length b) (projr (load_row cfg prefix (W r) True))
              = replicate (length b) 0" if "0 < r" "r < ws" for r
    using each [OF that(2)] that(1) by (auto simp add: bias_term_def)
  have split: "[0..<ws] = 0 # [1..<ws]"
    using ws by (simp add: upt_conv_Cons)
  have rest: "list_all (\<lambda>v. v = replicate (length b) 0)
      (map (\<lambda>r. bias_term (length b) (projr (load_row cfg prefix (W r) True))) [1..<ws])"
    using tr by (simp add: list_all_iff)
  have "all_reduce (length b)
            (map (\<lambda>r. bias_term (length b) (projr (load_row cfg prefix (W r) True))) [0..<ws])
          = map2 (+) b (replicate (length b) 0)"
    unfolding all_reduce_def split using foldr_zeros [OF rest] t0 by simp
  then show ?thesis using each by (simp add: map2_add_zeros)
qed

theorem load_row_bias_once_witness:
  "bias (linear_of (projr (load_row (mk_config 4 2 4 None False) ''attn.c_proj''
           (mk_weights 4 0 ex_fused [1, 2, 3]) True))) = Some [1, 2, 3]
   \<and> bias (linear_of (projr (load_row (mk_config 4 2 4 None False) ''attn.c_proj''
           (mk_weights 4 3 ex_fused [1, 2, 3]) True))) = None
   \<and> all_reduce (length [1, 2, 3::nat])
     (map (\<lambda>r. bias_term (length [1, 2, 3::nat])
                (projr (load_row (mk_config 4 2 4 None False) ''attn.c_proj''
                  (mk_weights 4 r ex_fused [1, 2, 3]) True))) [0..<4])
    = [1, 2, 3]"
proof -
  have ws: "0 < (4::nat)" by simp
  have ranks: "\<forall>r<4. process_group_rank (mk_weights 4 r ex_fused [1, 2, 3::nat]) = r"
    by (simp add: mk_weights_def)
  have bias0: "get_tensor (mk_weights 4 0 ex_fused [1, 2, 3::nat]) (''attn.c_proj'' @ ''.bias'')
      = Inr [1, 2, 3]"
    by (simp add: mk_weights_def)
  have loads: "\<forall>r<4. \<not> isl (if transpose (mk_config 4 2 4 None False)
        then get_sharded (mk_weights 4 r ex_fused [1, 2, 3::nat]) (''attn.c_proj'' @ ''.weight'') 0
        else get_multi_weights_row (mk_weights 4 r ex_fused [1, 2, 3::nat]) ''attn.c_proj''
               (quantize (mk_config 4 2 4 None False)))"
    by (simp add: mk_weights_def)
  note t = load_row_bias_once [where W = "\<lambda>r. mk_weights 4 r ex_fused [1, 2, 3]",
      OF ws ranks bias0 loads]
  from t have each: "\<forall>r<4. \<exists>l. load_row (mk_config 4 2 4 None False) ''attn.c_proj''
           (mk_weights 4 r ex_fused [1, 2, 3]) True = Inr (TensorParallelRowLinear l)
         \<and> bias l = (if r = 0 then Some [1, 2, 3] else None)"
    by (rule conjunct1)
  from each [rule_format, of 0]
  have r0: "bias (linear_of (projr (load_row (mk_config 4 2 4 None False) ''attn.c_proj''
           (mk_weights 4 0 ex_fused [1, 2, 3]) True))) = Some [1, 2, 3]"
    by auto
  from each [rule_format, of 3]
  have r3: "bias (linear_of (projr (load_row (mk_config 4 2 4 None False) ''attn.c_proj''
           (mk_weights 4 3 ex_fused [1, 2, 3]) True))) = None"
    by auto
  from t have "all_reduce (length [1, 2, 3::nat])
     (map (\<lambda>r. bias_term (length [1, 2, 3::nat])
                (projr (load_row (mk_config 4 2 4 None False) ''attn.c_proj''
                  (mk_weights 4 r ex_fused [1, 2, 3]) True))) [0..<4])
    = [1, 2, 3]"
    by (rule conjunct2)
  with r0 r3 show ?thesis by blast
qed

section \<open>The attention forward call\<close>






section \<open>The logits of the causal language model\<close>

text \<open>
  Claim C8. When \<open>lm_head_indices\<close> is absent, the logits are the head applied to every
  hidden state, one per input token when the model returns one hidden state per token.
  When indices are supplied (each in \<open>[-n, n)\<close>, negative ones counting from the end), the
  head is applied only to the hidden states they select and there is one row of logits
  per index; an index out of range raises IndexError.
\<close>

theorem causal_lm_forward_logits:
  assumes hs: "model args = Inr hidden_states"
  shows "FlashShellForCausalLM_forward model head args None = Inr (map head hidden_states)
       \<and> (length hidden_states = length (input_ids args)
            \<longrightarrow> map_sum id length (FlashShellForCausalLM_forward model head args None)
                  = Inr (length (input_ids args)))
       \<and> (list_all (\<lambda>i. - int (length hidden_states) \<le> i \<and> i < int (length hidden_states)) idx
            \<longrightarrow> FlashShellForCausalLM_forward model head args (Some idx)
                  = Inr (map (\<lambda>i. head (hidden_states
                            ! nat (if i < 0 then i + int (length hidden_states) else i))) idx)
                \<and> map_sum id length (FlashShellForCausalLM_forward model head args (Some idx))
                  = Inr (length idx))
       \<and> (\<not> list_all (\<lambda>i. - int (length hidden_states) \<le> i \<and> i < int (length hidden_states)) idx
            \<longrightarrow> FlashShellForCausalLM_forward model head args (Some idx) = Inl IndexError)"
  using hs
  by (simp add: FlashShellForCausalLM_forward_def index_select_def lm_head_apply_def Let_def
      comp_def)

theorem causal_lm_forward_logits_witness:
  "FlashShellForCausalLM_forward (\<lambda>a. Inr (map (\<lambda>t. t + 100) (input_ids a))) (\<lambda>h. 2 * h)
       ex_args None = Inr [222, 224, 226]
   \<and> map_sum id length
        (FlashShellForCausalLM_forward (\<lambda>a. Inr (map (\<lambda>t. t + 100) (input_ids a)))
           (\<lambda>h. 2 * h) ex_args None) = Inr (length (input_ids ex_args))
   \<and> FlashShellForCausalLM_forward (\<lambda>a. Inr (map (\<lambda>t. t + 100) (input_ids a))) (\<lambda>h. 2 * h)
       ex_args (Some [2]) = Inr [226]
   \<and> FlashShellForCausalLM_forward (\<lambda>a. Inr (map (\<lambda>t. t + 100) (input_ids a))) (\<lambda>h. 2 * h)
       ex_args (Some [3]) = Inl IndexError"
proof -
  have hs: "(\<lambda>a. Inr (map (\<lambda>t. t + 100) (input_ids a)) :: error + nat list) ex_args
      = Inr [111, 112, 113]"
    by (simp add: ex_args_def)
  note t = causal_lm_forward_logits [where model = "\<lambda>a. Inr (map (\<lambda>t. t + 100) (input_ids a))"
      and head = "\<lambda>h. 2 * h", OF hs]
  from t [of "[2]"] t [of "[3]"] show ?thesis by (simp add: ex_args_def)
qed

section \<open>The layout flag\<close>

lemma startswith_iff: "startswith s p \<longleftrightarrow> (\<exists>t. s = p @ t)"
proof
  assume "startswith s p"
  then have "s = p @ drop (length p) s"
    unfolding startswith_def by (metis append_take_drop_id)
  then show "\<exists>t. s = p @ t" ..
next
  assume "\<exists>t. s = p @ t"
  then show "startswith s p" by (auto simp add: startswith_def)
qed

lemma FlashShell_config_transpose:
  "FlashShell_config cuda sc attrs q um = Inr c \<Longrightarrow>
     \<exists>a rest. architectures attrs = Some (a # rest) \<and> transpose c = startswith a ''GPT2''"
  by (auto simp add: FlashShell_config_def shell_config.defs config.defs
      split: if_splits option.splits list.splits)

lemma load_attention'_axis:
  fixes w :: "'a weights" and q_size kv_size :: nat
  defines "ws \<equiv> process_group_size w" and "r \<equiv> process_group_rank w"
  defines "qs \<equiv> r * (q_size div ws)" and "qe \<equiv> (r + 1) * (q_size div ws)"
    and "ks \<equiv> q_size + r * (kv_size div ws)" and "ke \<equiv> q_size + (r + 1) * (kv_size div ws)"
    and "vs \<equiv> q_size + kv_size + r * (kv_size div ws)"
    and "ve \<equiv> q_size + kv_size + (r + 1) * (kv_size div ws)"
  assumes ok: "load_attention' cfg prefix w with_bias q_size kv_size = Inr l"
  shows "\<exists>slice. get_slice2 w (prefix @ ''.c_attn.weight'') = Inr slice
           \<and> rws (weight (linear_of l))
               = map (map (to_dtype w))
                   (if transpose cfg
                    then map (py_slice qs qe) (rws slice) @ map (py_slice ks ke) (rws slice)
                           @ map (py_slice vs ve) (rws slice)
                    else py_slice qs qe (rws slice) @ py_slice ks ke (rws slice)
                           @ py_slice vs ve (rws slice))"
proof -
  from ok obtain slice where s: "get_slice2 w (prefix @ ''.c_attn.weight'') = Inr slice"
    by (cases "get_slice2 w (prefix @ ''.c_attn.weight'')")
       (simp_all add: load_attention'_def)
  from ok s have d: "0 < process_group_size w" "q_size mod process_group_size w = 0"
      "kv_size mod process_group_size w = 0"
    by (auto simp add: load_attention'_def Let_def split: if_splits)
  show ?thesis
  proof (cases "transpose cfg")
    case True
    with ok s d have "rws (weight (linear_of l))
        = map (map (to_dtype w))
            (map (py_slice qs qe) (rws slice) @ map (py_slice ks ke) (rws slice)
               @ map (py_slice vs ve) (rws slice))"
      unfolding ws_def r_def qs_def qe_def ks_def ke_def vs_def ve_def
      by (auto simp add: load_attention'_def Let_def col_slice_def tensor_to_def get_linear_def
          split: if_splits sum.splits)
    with s True show ?thesis by simp
  next
    case False
    with ok s d have "rws (weight (linear_of l))
        = map (map (to_dtype w))
            (py_slice qs qe (rws slice) @ py_slice ks ke (rws slice)
               @ py_slice vs ve (rws slice))"
      unfolding ws_def r_def qs_def qe_def ks_def ke_def vs_def ve_def
      by (auto simp add: load_attention'_def Let_def row_slice_def tensor_to_def get_linear_def
          split: if_splits sum.splits)
    with s False show ?thesis by simp
  qed
qed

lemma load_row_axis:
  assumes "load_row cfg prefix w with_bias = Inr l"
  shows "(if transpose cfg
          then map_sum id tensor_T (get_sharded w (prefix @ ''.weight'') 0)
          else get_multi_weights_row w prefix (quantize cfg))
         = Inr (weight (linear_of l))"
  using assms
  by (auto simp add: load_row_def get_linear_def split: sum.splits if_splits)

text \<open>
  Claim C9. The configuration built at model construction has \<open>transpose\<close> set exactly
  when the first entry of \<open>architectures\<close> starts with \<open>GPT2\<close>. The flag selects the
  slicing axis in the loader. Whenever \<open>_load_attention\<close> returns a layer, its weight is
  made of the query, key and value intervals taken along the second axis of the fused
  tensor (inside each of its rows) when the flag is set, and along the first axis (whole
  rows) when it is not. Whenever \<open>load_row\<close> returns a layer, its weight is the transposed
  shard along axis 0 when the flag is set, and the row-sharded weight when it is not. No
  other field of the configuration has a part in this: two configurations with the same
  flag give the same fused attention weight and bias for the same weight source and sizes,
  and, when their quantization mode also agrees, the same row-parallel layer.
\<close>

theorem transpose_flag_decides_layout:
  fixes w :: "'a weights" and q_size kv_size :: nat
  defines "ws \<equiv> process_group_size w" and "r \<equiv> process_group_rank w"
  defines "qs \<equiv> r * (q_size div ws)" and "qe \<equiv> (r + 1) * (q_size div ws)"
    and "ks \<equiv> q_size + r * (kv_size div ws)" and "ke \<equiv> q_size + (r + 1) * (kv_size div ws)"
    and "vs \<equiv> q_size + kv_size + r * (kv_size div ws)"
    and "ve \<equiv> q_size + kv_size + (r + 1) * (kv_size div ws)"
  shows
  "(FlashShell_config cuda sc attrs q um = Inr c
      \<longrightarrow> (\<exists>a rest. architectures attrs = Some (a # rest)
             \<and> (transpose c \<longleftrightarrow> (\<exists>t. a = ''GPT2'' @ t))))
   \<and> (load_attention' cfg prefix w with_bias q_size kv_size = Inr l
      \<longrightarrow> (\<exists>slice. get_slice2 w (prefix @ ''.c_attn.weight'') = Inr slice
             \<and> rws (weight (linear_of l))
                 = map (map (to_dtype w))
                     (if transpose cfg
                      then map (py_slice qs qe) (rws slice) @ map (py_slice ks ke) (rws slice)
                             @ map (py_slice vs ve) (rws slice)
                      else py_slice qs qe (rws slice) @ py_slice ks ke (rws slice)
                             @ py_slice vs ve (rws slice))))
   \<and> (load_row cfg prefix w with_bias = Inr l'
      \<longrightarrow> (if transpose cfg
           then map_sum id tensor_T (get_sharded w (prefix @ ''.weight'') 0)
           else get_multi_weights_row w prefix (quantize cfg))
          = Inr (weight (linear_of l')))
   \<and> (transpose c1 = transpose c2
      \<longrightarrow> map_sum id (\<lambda>l. (weight (linear_of l), bias (linear_of l)))
             (load_attention' c1 prefix w with_bias q_size kv_size)
          = map_sum id (\<lambda>l. (weight (linear_of l), bias (linear_of l)))
             (load_attention' c2 prefix w with_bias q_size kv_size))
   \<and> (transpose c1 = transpose c2 \<and> quantize c1 = quantize c2
      \<longrightarrow> load_row c1 prefix w with_bias = load_row c2 prefix w with_bias)"
proof (intro conjI impI)
  assume "FlashShell_config cuda sc attrs q um = Inr c"
  from FlashShell_config_transpose [OF this]
  show "\<exists>a rest. architectures attrs = Some (a # rest)
             \<and> (transpose c \<longleftrightarrow> (\<exists>t. a = ''GPT2'' @ t))"
    unfolding startswith_iff by blast
next
  assume "load_attention' cfg prefix w with_bias q_size kv_size = Inr l"
  from load_attention'_axis [OF this]
  show "\<exists>slice. get_slice2 w (prefix @ ''.c_attn.weight'') = Inr slice
             \<and> rws (weight (linear_of l))
                 = map (map (to_dtype w))
                     (if transpose cfg
                      then map (py_slice qs qe) (rws slice) @ map (py_slice ks ke) (rws slice)
                             @ map (py_slice vs ve) (rws slice)
                      else py_slice qs qe (rws slice) @ py_slice ks ke (rws slice)
                             @ py_slice vs ve (rws slice))"
    unfolding ws_def r_def qs_def qe_def ks_def ke_def vs_def ve_def .
next
  assume "load_row cfg prefix w with_bias = Inr l'"
  then show "(if transpose cfg
           then map_sum id tensor_T (get_sharded w (prefix @ ''.weight'') 0)
           else get_multi_weights_row w prefix (quantize cfg))
          = Inr (weight (linear_of l'))"
    by (rule load_row_axis)
next
  assume "transpose c1 = transpose c2"
  then show "map_sum id (\<lambda>l. (weight (linear_of l), bias (linear_of l)))
             (load_attention' c1 prefix w with_bias q_size kv_size)
          = map_sum id (\<lambda>l. (weight (linear_of l), bias (linear_of l)))
             (load_attention' c2 prefix w with_bias q_size kv_size)"
    by (simp add: load_attention'_def Let_def get_linear_def split: sum.splits)
next
  assume "transpose c1 = transpose c2 \<and> quantize c1 = quantize c2"
  then have "transpose c1 = transpose c2" and "quantize c1 = quantize c2"
    by simp_all
  then show "load_row c1 prefix w with_bias = load_row c2 prefix w with_bias"
    by (simp only: load_row_def)
qed

theorem transpose_flag_decides_layout_witness:
  "map_sum id transpose
      (FlashShell_config True ShellConfig_default (ex_attrs ''GPT2LMHeadModel'') None None)
     = Inr True
   \<and> map_sum id transpose
      (FlashShell_config True ShellConfig_default (ex_attrs ''CodeShellForCausalLM'') None None)
     = Inr False
   \<and> rws (weight (linear_of (projr
        (load_attention' (mk_config 2 2 2 None True) ''attn''
           (mk_weights 1 0 ex_fused_T_mha [1, 2, 3, 4, 5, 6]) True 2 2))))
     = [[1, 2], [7, 8], [3, 4], [9, 10], [5, 6], [11, 12]]
   \<and> rws (weight (linear_of (projr
        (load_attention' (mk_config 4 2 4 None False) ''attn''
           (mk_weights 2 1 ex_fused ex_bias) True 4 2))))
     = [[2], [3], [5], [7]]
   \<and> weight (linear_of (projr
        (load_row (mk_config 2 2 2 None True) ''attn.c_proj''
           (mk_weights 1 0 ex_fused_T_mha [1, 2]) True)))
     = Tensor2 2 [[1, 7], [2, 8], [3, 9], [4, 10], [5, 11], [6, 12]]
   \<and> weight (linear_of (projr
        (load_row (mk_config 4 2 4 None False) ''attn.c_proj''
           (mk_weights 2 1 ex_fused ex_bias) True)))
     = ex_fused
   \<and> map_sum id (\<lambda>l. (weight (linear_of l), bias (linear_of l)))
        (load_attention' (mk_config 4 2 4 None False) ''attn''
           (mk_weights 2 1 ex_fused ex_bias) True 4 2)
     = map_sum id (\<lambda>l. (weight (linear_of l), bias (linear_of l)))
        (load_attention' (mk_config 8 4 16 (Some ''eetq'') False) ''attn''
           (mk_weights 2 1 ex_fused ex_bias) True 4 2)
   \<and> load_row (mk_config 4 2 4 None False) ''attn.c_proj'' (mk_weights 2 1 ex_fused ex_bias) True
     = load_row (mk_config 8 4 16 None False) ''attn.c_proj''
         (mk_weights 2 1 ex_fused ex_bias) True"
proof -
  have t: "transpose (mk_config 4 2 4 None False)
             = transpose (mk_config 8 4 16 (Some ''eetq'') False)"
    "transpose (mk_config 4 2 4 None False) = transpose (mk_config 8 4 16 None False)
     \<and> quantize (mk_config 4 2 4 None False) = quantize (mk_config 8 4 16 None False)"
    by (simp_all add: mk_config_def config.defs shell_config.defs)
  have a: "map_sum id transpose
      (FlashShell_config True ShellConfig_default (ex_attrs ''GPT2LMHeadModel'') None None)
     = Inr True"
    "map_sum id transpose
      (FlashShell_config True ShellConfig_default (ex_attrs ''CodeShellForCausalLM'') None None)
     = Inr False"
    by (simp_all add: FlashShell_config_def ex_attrs_def startswith_def config.defs
        shell_config.defs)
  have e1: "load_attention' (mk_config 2 2 2 None True) ''attn''
           (mk_weights 1 0 ex_fused_T_mha [1, 2, 3, 4, 5, 6]) True 2 2
      = Inr (projr (load_attention' (mk_config 2 2 2 None True) ''attn''
           (mk_weights 1 0 ex_fused_T_mha [1, 2, 3, 4, 5, 6]) True 2 2))"
    by (simp add: ex_defs loader_defs)
  have e2: "load_attention' (mk_config 4 2 4 None False) ''attn''
           (mk_weights 2 1 ex_fused ex_bias) True 4 2
      = Inr (projr (load_attention' (mk_config 4 2 4 None False) ''attn''
           (mk_weights 2 1 ex_fused ex_bias) True 4 2))"
    by (simp add: ex_defs loader_defs)
  have e3: "load_row (mk_config 2 2 2 None True) ''attn.c_proj''
           (mk_weights 1 0 ex_fused_T_mha [1, 2]) True
      = Inr (projr (load_row (mk_config 2 2 2 None True) ''attn.c_proj''
           (mk_weights 1 0 ex_fused_T_mha [1, 2]) True))"
    by (simp add: ex_defs loader_defs)
  have e4: "load_row (mk_config 4 2 4 None False) ''attn.c_proj''
           (mk_weights 2 1 ex_fused ex_bias) True
      = Inr (projr (load_row (mk_config 4 2 4 None False) ''attn.c_proj''
           (mk_weights 2 1 ex_fused ex_bias) True))"
    by (simp add: ex_defs loader_defs)
  note T = transpose_flag_decides_layout
  from T [where cfg = "mk_config 2 2 2 None True" and prefix = "''attn''"
      and w = "mk_weights 1 0 ex_fused_T_mha [1, 2, 3, 4, 5, 6]" and with_bias = True
      and q_size = 2 and kv_size = 2
      and l = "projr (load_attention' (mk_config 2 2 2 None True) ''attn''
           (mk_weights 1 0 ex_fused_T_mha [1, 2, 3, 4, 5, 6]) True 2 2)"] e1
  have b1: "rws (weight (linear_of (projr
        (load_attention' (mk_config 2 2 2 None True) ''attn''
           (mk_weights 1 0 ex_fused_T_mha [1, 2, 3, 4, 5, 6]) True 2 2))))
     = [[1, 2], [7, 8], [3, 4], [9, 10], [5, 6], [11, 12]]"
    by (auto simp add: mk_weights_def mk_config_def config.defs shell_config.defs
        ShellConfig_init_def ex_fused_T_mha_def py_slice_def)
  from T [where cfg = "mk_config 4 2 4 None False" and prefix = "''attn''"
      and w = "mk_weights 2 1 ex_fused ex_bias" and with_bias = True
      and q_size = 4 and kv_size = 2
      and l = "projr (load_attention' (mk_config 4 2 4 None False) ''attn''
           (mk_weights 2 1 ex_fused ex_bias) True 4 2)"] e2
  have b2: "rws (weight (linear_of (projr
        (load_attention' (mk_config 4 2 4 None False) ''attn''
           (mk_weights 2 1 ex_fused ex_bias) True 4 2))))
     = [[2], [3], [5], [7]]"
    by (auto simp add: mk_weights_def mk_config_def config.defs shell_config.defs
        ShellConfig_init_def ex_fused_def py_slice_def)
  from T [where cfg = "mk_config 2 2 2 None True" and prefix = "''attn.c_proj''"
      and w = "mk_weights 1 0 ex_fused_T_mha [1, 2]" and with_bias = True
      and l' = "projr (load_row (mk_config 2 2 2 None True) ''attn.c_proj''
           (mk_weights 1 0 ex_fused_T_mha [1, 2]) True)"] e3
  have x3: "(if transpose (mk_config 2 2 2 None True)
           then map_sum id tensor_T
                  (get_sharded (mk_weights 1 0 ex_fused_T_mha [1, 2])
                     (''attn.c_proj'' @ ''.weight'') 0)
           else get_multi_weights_row (mk_weights 1 0 ex_fused_T_mha [1, 2]) ''attn.c_proj''
                  (quantize (mk_config 2 2 2 None True)))
          = Inr (weight (linear_of (projr
              (load_row (mk_config 2 2 2 None True) ''attn.c_proj''
                 (mk_weights 1 0 ex_fused_T_mha [1, 2]) True))))"
    by blast
  have y3: "(if transpose (mk_config 2 2 2 None True)
           then map_sum id tensor_T
                  (get_sharded (mk_weights 1 0 ex_fused_T_mha [1, 2])
                     (''attn.c_proj'' @ ''.weight'') 0)
           else get_multi_weights_row (mk_weights 1 0 ex_fused_T_mha [1, 2]) ''attn.c_proj''
                  (quantize (mk_config 2 2 2 None True)))
          = Inr (Tensor2 2 [[1, 7], [2, 8], [3, 9], [4, 10], [5, 11], [6, 12]])"
    by (simp add: mk_weights_def mk_config_def config.defs shell_config.defs
        ShellConfig_init_def ex_fused_T_mha_def tensor_T_def nrows_def upt_rec)
  from x3 [unfolded y3]
  have b3: "weight (linear_of (projr
        (load_row (mk_config 2 2 2 None True) ''attn.c_proj''
           (mk_weights 1 0 ex_fused_T_mha [1, 2]) True)))
     = Tensor2 2 [[1, 7], [2, 8], [3, 9], [4, 10], [5, 11], [6, 12]]"
    by simp
  from T [where cfg = "mk_config 4 2 4 None False" and prefix = "''attn.c_proj''"
      and w = "mk_weights 2 1 ex_fused ex_bias" and with_bias = True
      and l' = "projr (load_row (mk_config 4 2 4 None False) ''attn.c_proj''
           (mk_weights 2 1 ex_fused ex_bias) True)"] e4
  have x4: "(if transpose (mk_config 4 2 4 None False)
           then map_sum id tensor_T
                  (get_sharded (mk_weights 2 1 ex_fused ex_bias)
                     (''attn.c_proj'' @ ''.weight'') 0)
           else get_multi_weights_row (mk_weights 2 1 ex_fused ex_bias) ''attn.c_proj''
                  (quantize (mk_config 4 2 4 None False)))
          = Inr (weight (linear_of (projr
              (load_row (mk_config 4 2 4 None False) ''attn.c_proj''
                 (mk_weights 2 1 ex_fused ex_bias) True))))"
    by blast
  have y4: "(if transpose (mk_config 4 2 4 None False)
           then map_sum id tensor_T
                  (get_sharded (mk_weights 2 1 ex_fused ex_bias)
                     (''attn.c_proj'' @ ''.weight'') 0)
           else get_multi_weights_row (mk_weights 2 1 ex_fused ex_bias) ''attn.c_proj''
                  (quantize (mk_config 4 2 4 None False)))
          = Inr ex_fused"
    by (simp add: mk_weights_def mk_config_def config.defs shell_config.defs
        ShellConfig_init_def)
  from x4 [unfolded y4]
  have b4: "weight (linear_of (projr
        (load_row (mk_config 4 2 4 None False) ''attn.c_proj''
           (mk_weights 2 1 ex_fused ex_bias) True)))
     = ex_fused"
    by simp
  from T [where ?c1.0 = "mk_config 4 2 4 None False"
      and ?c2.0 = "mk_config 8 4 16 (Some ''eetq'') False" and prefix = "''attn''"
      and w = "mk_weights 2 1 ex_fused ex_bias" and with_bias = True and q_size = 4
      and kv_size = 2] t(1)
  have b: "map_sum id (\<lambda>l. (weight (linear_of l), bias (linear_of l)))
        (load_attention' (mk_config 4 2 4 None False) ''attn''
           (mk_weights 2 1 ex_fused ex_bias) True 4 2)
     = map_sum id (\<lambda>l. (weight (linear_of l), bias (linear_of l)))
        (load_attention' (mk_config 8 4 16 (Some ''eetq'') False) ''attn''
           (mk_weights 2 1 ex_fused ex_bias) True 4 2)"
    by blast
  from T [where ?c1.0 = "mk_config 4 2 4 None False"
      and ?c2.0 = "mk_config 8 4 16 None False" and prefix = "''attn.c_proj''"
      and w = "mk_weights 2 1 ex_fused ex_bias" and with_bias = True] t(2)
  have c: "load_row (mk_config 4 2 4 None False) ''attn.c_proj''
             (mk_weights 2 1 ex_fused ex_bias) True
     = load_row (mk_config 8 4 16 None False) ''attn.c_proj''
         (mk_weights 2 1 ex_fused ex_bias) True"
    by blast
  from a b1 b2 b3 b4 b c show ?thesis by blast
qed

end
